theory Spec2Isabelle
  imports Main "HOL-Library.Word"
begin

section \<open>JavaScript strings\<close>

text \<open>
  A JavaScript string is a sequence of UTF-16 code units; \<open>length\<close>, \<open>split\<close>, \<open>===\<close>
  and the regular expressions of the source (none of which carries the \<open>u\<close> flag) all
  work on code units. \<open>js\<close> embeds an ASCII literal.
\<close>

type_synonym code_unit = "16 word"
type_synonym jsstring = "code_unit list"

definition js :: "string \<Rightarrow> jsstring" where
  "js s = map of_char s"

section \<open>Results page (src/app/results/page.tsx)\<close>

subsection \<open>Data\<close>

text \<open>
  One element of the JSON array stored by \<open>setCourses(data)\<close>. The fields the page's
  derivations read are strings, as in the specification's data model; \<open>selectedYear\<close>
  and \<open>selectedSemester\<close> are always strings, since they come from \<open>e.target.value\<close>,
  and are compared with \<open>===\<close>. The floating-point \<open>course_gpa\<close> and the grade
  histogram are only displayed; they live in the record's extension slot.
\<close>

record SectionRecord =
  subject_id :: jsstring
  course_number :: jsstring
  instructor1 :: jsstring
  year :: jsstring
  semester :: jsstring
  section_number :: jsstring
  grades_count :: int

text \<open>The six \<open>useState\<close> cells of \<open>ResultsPage\<close>; \<open>None\<close> is \<open>null\<close>.\<close>

record 'a ResultsState =
  courses :: "'a SectionRecord_scheme list"
  loading :: bool
  selectedProfessor :: "jsstring option"
  selectedYear :: "jsstring option"
  selectedSemester :: "jsstring option"
  selectedSection :: "'a SectionRecord_scheme option"

text \<open>
  The conditions \<open>selectedProfessor ? \<dots>\<close>, \<open>selectedYear ? \<dots>\<close> and
  \<open>selectedSemester ? \<dots>\<close> test JavaScript truthiness: \<open>null\<close> and the empty
  string are both falsy.
\<close>

definition truthy :: "jsstring option \<Rightarrow> bool" where
  "truthy v = (case v of None \<Rightarrow> False | Some s \<Rightarrow> s \<noteq> [])"

subsection \<open>Derived lists\<close>

text \<open>
  \<open>[...new Set(xs)]\<close>: a \<open>Set\<close> keeps its elements in insertion order and ignores
  the insertion of an element it already holds.
\<close>

definition Set_spread :: "'a list \<Rightarrow> 'a list" where
  "Set_spread xs = fold (\<lambda>x seen. if x \<in> set seen then seen else seen @ [x]) xs []"

definition professors :: "('a, 'b) ResultsState_scheme \<Rightarrow> jsstring list" where
  "professors st = Set_spread (map instructor1 (courses st))"

definition filteredCourses :: "('a, 'b) ResultsState_scheme \<Rightarrow> 'a SectionRecord_scheme list" where
  "filteredCourses st =
     (if truthy (selectedProfessor st)
      then filter (\<lambda>course. Some (instructor1 course) = selectedProfessor st) (courses st)
      else [])"

definition years :: "('a, 'b) ResultsState_scheme \<Rightarrow> jsstring list" where
  "years st = Set_spread (map year (filteredCourses st))"

definition semesters :: "('a, 'b) ResultsState_scheme \<Rightarrow> jsstring list" where
  "semesters st = Set_spread (map semester (filteredCourses st))"

text \<open>The predicate of the \<open>filter\<close> call at lines 60 to 63.\<close>

definition matchesYearSemester ::
  "('a, 'b) ResultsState_scheme \<Rightarrow> 'a SectionRecord_scheme \<Rightarrow> bool" where
  "matchesYearSemester st course =
     (let matchesYear =
            (if truthy (selectedYear st) then Some (year course) = selectedYear st else True);
          matchesSemester =
            (if truthy (selectedSemester st) then Some (semester course) = selectedSemester st
             else True)
      in matchesYear \<and> matchesSemester)"

text \<open>The callback of the \<open>reduce\<close> call at lines 64 to 66, started from \<open>[]\<close>.\<close>

definition reduce_unique ::
  "'a SectionRecord_scheme \<Rightarrow> 'a SectionRecord_scheme list \<Rightarrow> 'a SectionRecord_scheme list" where
  "reduce_unique item unique =
     (if list_ex (\<lambda>course. section_number course = section_number item) unique
      then unique else unique @ [item])"

definition finalFilteredCourses ::
  "('a, 'b) ResultsState_scheme \<Rightarrow> 'a SectionRecord_scheme list" where
  "finalFilteredCourses st =
     fold reduce_unique (filter (matchesYearSemester st) (filteredCourses st)) []"

subsection \<open>Event handler\<close>

definition handleProfessorClick ::
  "jsstring \<Rightarrow> ('a, 'b) ResultsState_scheme \<Rightarrow> ('a, 'b) ResultsState_scheme" where
  "handleProfessorClick professor st =
     st\<lparr>selectedProfessor := Some professor,
        selectedYear := None,
        selectedSemester := None,
        selectedSection := None\<rparr>"

subsection \<open>The specification's wording of the derived lists\<close>

text \<open>
  ``Deduplicated keeping the first occurrence per key'' and ``distinct, in first-seen
  order'': the element at index \<open>i\<close> stays exactly when its key does not occur among
  the keys of the \<open>i\<close> elements before it.
\<close>

definition first_occurrences :: "('a \<Rightarrow> 'k) \<Rightarrow> 'a list \<Rightarrow> 'a list" where
  "first_occurrences key xs =
     map (\<lambda>i. xs ! i)
       (filter (\<lambda>i. key (xs ! i) \<notin> set (map key (take i xs))) [0..<length xs])"

text \<open>A year or semester selection is set when it is truthy; then it narrows.\<close>

definition narrowed ::
  "jsstring option \<Rightarrow> jsstring option \<Rightarrow> 'a SectionRecord_scheme list \<Rightarrow> 'a SectionRecord_scheme list"
  where
  "narrowed y s cs =
     filter (\<lambda>c. (truthy y \<longrightarrow> year c = the y) \<and> (truthy s \<longrightarrow> semester c = the s)) cs"

text \<open>Proof device: deduplication by key with an explicit set of keys seen so far.\<close>

fun dedup_from :: "('a \<Rightarrow> 'k) \<Rightarrow> 'k set \<Rightarrow> 'a list \<Rightarrow> 'a list" where
  "dedup_from key seen [] = []"
| "dedup_from key seen (x # xs) =
     (if key x \<in> seen then dedup_from key seen xs
      else x # dedup_from key (insert (key x) seen) xs)"

section \<open>Search bar (src/app/components/SearchBar.tsx)\<close>

subsection \<open>Character classes of the regular expressions\<close>

text \<open>
  \<open>\s\<close> matches the code units of ECMAScript's WhiteSpace and LineTerminator
  productions; \<open>String.prototype.trim\<close> and \<open>Number\<close> strip the same set.
\<close>

definition whitespace :: "code_unit \<Rightarrow> bool" where
  "whitespace c =
     (c \<in> {0x09, 0x0A, 0x0B, 0x0C, 0x0D, 0x20, 0xA0, 0x1680, 0x2028, 0x2029, 0x202F,
            0x205F, 0x3000, 0xFEFF}
      \<or> (0x2000 \<le> c \<and> c \<le> 0x200A))"

text \<open>
  \<open>[a-zA-Z]\<close>. Under the \<open>i\<close> flag without the \<open>u\<close> flag a code unit above 127
  is never canonicalised to an ASCII one, so the class is the same with and without
  \<open>i\<close>.
\<close>

definition letter :: "code_unit \<Rightarrow> bool" where
  "letter c = ((0x41 \<le> c \<and> c \<le> 0x5A) \<or> (0x61 \<le> c \<and> c \<le> 0x7A))"

text \<open>\<open>\d\<close> is \<open>[0-9]\<close>.\<close>

definition digit :: "code_unit \<Rightarrow> bool" where
  "digit c = (0x30 \<le> c \<and> c \<le> 0x39)"

text \<open>The pattern character \<open>g\<close> under the \<open>i\<close> flag.\<close>

definition letter_g :: "code_unit \<Rightarrow> bool" where
  "letter_g c = (c = 0x67 \<or> c = 0x47)"

subsection \<open>String operations\<close>

text \<open>
  \<open>s.replace(/\s+/g, r)\<close>: every maximal run of whitespace is replaced by \<open>r\<close>.
\<close>

function replace_whitespace :: "jsstring \<Rightarrow> jsstring \<Rightarrow> jsstring" where
  "replace_whitespace r [] = []"
| "replace_whitespace r (c # cs) =
     (if whitespace c then r @ replace_whitespace r (dropWhile whitespace cs)
      else c # replace_whitespace r cs)"
  by pat_completeness auto
termination
  by (relation "measure (\<lambda>(r, s). length s)")
     (auto simp: less_Suc_eq_le length_dropWhile_le)

text \<open>\<open>s.trim()\<close>.\<close>

definition trim :: "jsstring \<Rightarrow> jsstring" where
  "trim s = rev (dropWhile whitespace (rev (dropWhile whitespace s)))"

text \<open>
  \<open>/^[a-zA-Z]+\d+$/.test(s)\<close>: the whole string splits into a non-empty run of
  letters followed by a non-empty run of digits.
\<close>

definition coursePattern :: "jsstring \<Rightarrow> bool" where
  "coursePattern s =
     list_ex (\<lambda>k. list_all letter (take k s) \<and> list_all digit (drop k s)) [1..<length s]"

text \<open>
  \<open>/^[a-zA-Z]+g$/i.test(s)\<close>: a non-empty run of letters followed by one final
  \<open>g\<close> or \<open>G\<close>.
\<close>

definition professorPattern :: "jsstring \<Rightarrow> bool" where
  "professorPattern s =
     list_ex
       (\<lambda>k. list_all letter (take k s) \<and> (case drop k s of [g] \<Rightarrow> letter_g g | _ \<Rightarrow> False))
       [1..<length s]"

text \<open>
  \<open>s.replace(/([a-zA-Z]+)(\d+)/i, '$1 $2')\<close> replaces the leftmost match only (no
  \<open>g\<close> flag). At a start position the greedy first group takes the maximal run of
  letters; giving letters back cannot help, because the code unit after a shorter
  group is a letter and \<open>\d+\<close> needs a digit. \<open>course_match\<close> returns the two groups
  and the text after the match.
\<close>

definition course_match :: "jsstring \<Rightarrow> (jsstring \<times> jsstring \<times> jsstring) option" where
  "course_match s =
     (let g1 = takeWhile letter s; r = dropWhile letter s;
          g2 = takeWhile digit r
      in if g1 \<noteq> [] \<and> g2 \<noteq> [] then Some (g1, g2, dropWhile digit r) else None)"

fun replace_course :: "jsstring \<Rightarrow> jsstring" where
  "replace_course [] = []"
| "replace_course (c # cs) =
     (case course_match (c # cs) of
        Some (g1, g2, rest) \<Rightarrow> g1 @ js '' '' @ g2 @ rest
      | None \<Rightarrow> c # replace_course cs)"

text \<open>
  \<open>s.replace(/g$/i, ' g')\<close>: only a \<open>g\<close> or \<open>G\<close> in last position matches, and it is
  replaced by a space and a lower-case \<open>g\<close>.
\<close>

definition replace_final_g :: "jsstring \<Rightarrow> jsstring" where
  "replace_final_g s =
     (if s \<noteq> [] \<and> letter_g (last s) then butlast s @ js '' g'' else s)"

subsection \<open>normalizeSearchInput\<close>

definition normalizeSearchInput :: "jsstring \<Rightarrow> jsstring" where
  "normalizeSearchInput input =
     (if coursePattern (replace_whitespace [] input) then
        (let noSpaces = replace_whitespace [] input in replace_course noSpaces)
      else if professorPattern (replace_whitespace [] input) then
        (let noSpaces = replace_whitespace [] input in replace_final_g noSpaces)
      else trim (replace_whitespace (js '' '') input))"

text \<open>Proof device: the shape of a string after \<open>replace(/\s+/g, ' ')\<close>.\<close>

fun single_spaced :: "jsstring \<Rightarrow> bool" where
  "single_spaced [] = True"
| "single_spaced (c # cs) =
     ((whitespace c \<longrightarrow> c = 0x20 \<and> (cs = [] \<or> \<not> whitespace (hd cs))) \<and> single_spaced cs)"

subsection \<open>Built-in functions used by the handlers\<close>

datatype js_error = URIError | TypeError | SyntaxError

text \<open>\<open>s.split(sep)\<close> for a one-unit separator; the empty string splits into \<open>[""]\<close>.\<close>

fun split_on :: "code_unit \<Rightarrow> jsstring \<Rightarrow> jsstring list" where
  "split_on sep [] = [[]]"
| "split_on sep (c # cs) =
     (if c = sep then [] # split_on sep cs
      else (case split_on sep cs of [] \<Rightarrow> [[c]] | t # ts \<Rightarrow> (c # t) # ts))"

text \<open>\<open>xs.join(sep)\<close>.\<close>

fun join_with :: "jsstring \<Rightarrow> jsstring list \<Rightarrow> jsstring" where
  "join_with sep [] = []"
| "join_with sep [x] = x"
| "join_with sep (x # y # ys) = x @ sep @ join_with sep (y # ys)"

text \<open>
  \<open>isNaN(Number(s))\<close> for a string \<open>s\<close>: \<open>Number\<close> yields \<open>NaN\<close> exactly when
  \<open>s\<close> is not derivable from ECMAScript's \<open>StringNumericLiteral\<close>, which is optional
  white space around nothing or around a \<open>StrNumericLiteral\<close>: a signed decimal literal
  (with optional fraction and exponent, or \<open>Infinity\<close>) or an unsigned binary, octal or
  hexadecimal integer literal.
\<close>

definition ExponentPart_opt :: "jsstring \<Rightarrow> bool" where
  "ExponentPart_opt s =
     (case s of
        [] \<Rightarrow> True
      | e # r \<Rightarrow>
          (e = 0x65 \<or> e = 0x45) \<and>
          (let ds = (case r of [] \<Rightarrow> [] | sg # r' \<Rightarrow> if sg = 0x2B \<or> sg = 0x2D then r' else r)
           in ds \<noteq> [] \<and> list_all digit ds))"

definition StrUnsignedDecimalLiteral :: "jsstring \<Rightarrow> bool" where
  "StrUnsignedDecimalLiteral s =
     (s = js ''Infinity'' \<or>
      (let ip = takeWhile digit s; r = dropWhile digit s
       in case r of
            [] \<Rightarrow> ip \<noteq> []
          | c # r' \<Rightarrow>
              if c = 0x2E then
                (let fp = takeWhile digit r'; r'' = dropWhile digit r'
                 in (ip \<noteq> [] \<or> fp \<noteq> []) \<and> ExponentPart_opt r'')
              else ip \<noteq> [] \<and> ExponentPart_opt r))"

definition StrDecimalLiteral :: "jsstring \<Rightarrow> bool" where
  "StrDecimalLiteral s =
     (case s of
        [] \<Rightarrow> False
      | c # r \<Rightarrow>
          if c = 0x2B \<or> c = 0x2D then StrUnsignedDecimalLiteral r
          else StrUnsignedDecimalLiteral s)"

definition hex_digit :: "code_unit \<Rightarrow> bool" where
  "hex_digit c = (digit c \<or> (0x41 \<le> c \<and> c \<le> 0x46) \<or> (0x61 \<le> c \<and> c \<le> 0x66))"

definition NonDecimalIntegerLiteral :: "jsstring \<Rightarrow> bool" where
  "NonDecimalIntegerLiteral s =
     (case s of
        z # p # ds \<Rightarrow>
          z = 0x30 \<and> ds \<noteq> [] \<and>
          (((p = 0x62 \<or> p = 0x42) \<and> list_all (\<lambda>c. c = 0x30 \<or> c = 0x31) ds) \<or>
           ((p = 0x6F \<or> p = 0x4F) \<and> list_all (\<lambda>c. 0x30 \<le> c \<and> c \<le> 0x37) ds) \<or>
           ((p = 0x78 \<or> p = 0x58) \<and> list_all hex_digit ds))
      | _ \<Rightarrow> False)"

definition isNaN_Number :: "jsstring \<Rightarrow> bool" where
  "isNaN_Number s =
     (let t = trim s
      in \<not> (t = [] \<or> StrDecimalLiteral t \<or> NonDecimalIntegerLiteral t))"

text \<open>
  \<open>encodeURIComponent(s)\<close>: the unreserved code units (ASCII letters, digits and
  \<open>- _ . ! ~ * ' ( )\<close>) are kept; every other code point is written as the
  percent-escaped octets of its UTF-8 encoding; an unpaired surrogate raises
  \<open>URIError\<close>.
\<close>

definition unreserved :: "code_unit \<Rightarrow> bool" where
  "unreserved c =
     (letter c \<or> digit c \<or>
      c \<in> {0x2D, 0x5F, 0x2E, 0x21, 0x7E, 0x2A, 0x27, 0x28, 0x29})"

definition hex_of :: "nat \<Rightarrow> code_unit" where
  "hex_of n = (if n < 10 then of_nat (48 + n) else of_nat (55 + n))"

definition percent_octet :: "nat \<Rightarrow> jsstring" where
  "percent_octet b = [0x25, hex_of (b div 16), hex_of (b mod 16)]"

definition utf8_octets :: "nat \<Rightarrow> nat list" where
  "utf8_octets cp =
     (if cp < 0x80 then [cp]
      else if cp < 0x800 then [0xC0 + cp div 64, 0x80 + cp mod 64]
      else if cp < 0x10000 then
        [0xE0 + cp div 4096, 0x80 + (cp div 64) mod 64, 0x80 + cp mod 64]
      else
        [0xF0 + cp div 262144, 0x80 + (cp div 4096) mod 64, 0x80 + (cp div 64) mod 64,
         0x80 + cp mod 64])"

definition percent_encode :: "nat \<Rightarrow> jsstring" where
  "percent_encode cp = concat (map percent_octet (utf8_octets cp))"

definition lead_surrogate :: "code_unit \<Rightarrow> bool" where
  "lead_surrogate c = (0xD800 \<le> c \<and> c \<le> 0xDBFF)"

definition trail_surrogate :: "code_unit \<Rightarrow> bool" where
  "trail_surrogate c = (0xDC00 \<le> c \<and> c \<le> 0xDFFF)"

definition prepend :: "jsstring \<Rightarrow> js_error + jsstring \<Rightarrow> js_error + jsstring" where
  "prepend p r = (case r of Inl e \<Rightarrow> Inl e | Inr s \<Rightarrow> Inr (p @ s))"

fun encodeURIComponent :: "jsstring \<Rightarrow> js_error + jsstring" where
  "encodeURIComponent [] = Inr []"
| "encodeURIComponent (c # cs) =
     (if unreserved c then prepend [c] (encodeURIComponent cs)
      else if trail_surrogate c then Inl URIError
      else if lead_surrogate c then
        (case cs of
           [] \<Rightarrow> Inl URIError
         | d # ds \<Rightarrow>
             if trail_surrogate d then
               prepend
                 (percent_encode ((unat c - 0xD800) * 0x400 + (unat d - 0xDC00) + 0x10000))
                 (encodeURIComponent ds)
             else Inl URIError)
      else prepend (percent_encode (unat c)) (encodeURIComponent cs))"

subsection \<open>Component state\<close>

record Suggestion =
  suggestion :: jsstring
  type :: jsstring

datatype RouteType = RouteCourse | RouteProfessor

text \<open>
  The props of \<open>SearchBar\<close>. \<open>resetState\<close> records whether the callback is supplied;
  an absent \<open>course\<close>, \<open>professor\<close> or \<open>routeType\<close> (\<open>undefined\<close> or \<open>null\<close>) is
  \<open>None\<close>.
\<close>

record SearchBarProps =
  initialValue :: jsstring
  resetState :: bool
  course :: "jsstring option"
  professor :: "jsstring option"
  routeType :: "RouteType option"

datatype console_entry =
  ConsoleLog "jsstring option" jsstring
| ConsoleError jsstring js_error

text \<open>
  The three \<open>useState\<close> cells of the component, followed by what the component does
  to the outside: the console lines written, the URLs passed to \<open>fetch\<close>, the routes
  passed to \<open>router.push\<close>, and the number of invocations of the \<open>resetState\<close>
  callback.
\<close>

record SearchBar =
  searchInput :: jsstring
  suggestions :: "Suggestion list"
  isLoading :: bool
  console :: "console_entry list"
  fetched :: "jsstring list"
  pushed :: "jsstring list"
  resetStateCalls :: nat

text \<open>
  A handler either completes or throws, and in both cases leaves a state behind.
\<close>

type_synonym 'a handler = "'a SearchBar_scheme \<Rightarrow> (js_error + unit) \<times> 'a SearchBar_scheme"

subsection \<open>handleSearch\<close>

text \<open>
  The parameter \<open>suggestion\<close> of \<open>handleSearch\<close> is written \<open>selected\<close>, since
  \<open>suggestion\<close> names the field of \<open>Suggestion\<close>. Line 98: its first two
  space-separated terms.
\<close>

definition courseSuggestion :: "jsstring \<Rightarrow> jsstring" where
  "courseSuggestion selected = join_with (js '' '') (take 2 (split_on 0x20 selected))"

text \<open>
  The condition negated at line 106. \<open>course == courseSuggestion\<close> compares an
  optional string with a string; \<open>undefined\<close> equals no string.
\<close>

definition alreadyDisplayed :: "SearchBarProps \<Rightarrow> jsstring \<Rightarrow> bool" where
  "alreadyDisplayed props selected =
     ((course props = Some (courseSuggestion selected) \<and> routeType props = Some RouteCourse)
      \<or> (professor props = Some selected \<and> routeType props = Some RouteProfessor))"

text \<open>
  Lines 112 to 114: \<open>find\<close> returns the first matching element, an object and hence
  truthy, or \<open>undefined\<close>.
\<close>

definition isProfessor :: "Suggestion list \<Rightarrow> jsstring \<Rightarrow> bool" where
  "isProfessor suggs selected =
     list_ex (\<lambda>s. suggestion s = selected \<and> type s = js ''professor'') suggs"

text \<open>Lines 117 to 126: the value of the variable \<open>suggestion\<close> at line 128.\<close>

definition searchedValue :: "jsstring \<Rightarrow> jsstring" where
  "searchedValue selected =
     (let parts = split_on 0x20 (courseSuggestion selected)
      in if length parts \<ge> 2 then
           (let coursePrefix = parts ! 0; courseNumber = parts ! 1
            in if length courseNumber = 4 \<and> \<not> isNaN_Number courseNumber
               then coursePrefix @ js '' '' @ courseNumber
               else selected)
         else selected)"

text \<open>
  The closure reads \<open>suggestions\<close> as of the render that created it, so the lookup
  of line 112 sees the list from before \<open>setSuggestions([])\<close>.
\<close>

definition handleSearch :: "SearchBarProps \<Rightarrow> jsstring \<Rightarrow> 'a handler" where
  "handleSearch props selected st =
     (let st1 = st\<lparr>console := console st @ [ConsoleLog (course props) selected]\<rparr>;
          st2 = st1\<lparr>searchInput := selected\<rparr>;
          st3 = st2\<lparr>suggestions := []\<rparr>;
          st4 = (if \<not> alreadyDisplayed props selected then
                   (if resetState props
                    then st3\<lparr>resetStateCalls := Suc (resetStateCalls st3)\<rparr> else st3)
                 else st3);
          prof = isProfessor (suggestions st) selected
      in case encodeURIComponent (searchedValue selected) of
           Inl e \<Rightarrow> (Inl e, st4)
         | Inr q \<Rightarrow>
             (Inr (),
              st4\<lparr>pushed := pushed st4 @
                 [(if prof then js ''/results?professor='' else js ''/results?course='') @ q]\<rparr>))"

subsection \<open>fetchSuggestions\<close>

text \<open>
  The network, as the component sees it: \<open>fetch(url)\<close> rejects, or resolves to a
  response whose \<open>json()\<close> rejects or resolves to the parsed suggestion array.
\<close>

datatype fetch_result = Rejects js_error | Responds "js_error + Suggestion list"

text \<open>
  \<open>try { block } catch (e) { handler } finally { finalizer }\<close>: the handler runs when
  the block throws; the finalizer runs in every case; the statement throws when the
  finalizer throws or, failing that, when the handler does.
\<close>

definition try_catch_finally ::
  "'a handler \<Rightarrow> (js_error \<Rightarrow> 'a handler) \<Rightarrow> 'a handler \<Rightarrow> 'a handler" where
  "try_catch_finally block handler finalizer st =
     (let (r1, st1) = block st;
          (r2, st2) = (case r1 of Inl e \<Rightarrow> handler e st1 | Inr u \<Rightarrow> (Inr u, st1));
          (r3, st3) = finalizer st2
      in case r3 of Inl e \<Rightarrow> (Inl e, st3) | Inr u \<Rightarrow> (r2, st3))"

text \<open>Lines 63 to 68, with the two awaited promises settled by the network.\<close>

definition fetch_block :: "(jsstring \<Rightarrow> fetch_result) \<Rightarrow> jsstring \<Rightarrow> 'a handler" where
  "fetch_block network input st =
     (let normalizedInput = normalizeSearchInput input
      in case encodeURIComponent normalizedInput of
           Inl e \<Rightarrow> (Inl e, st)
         | Inr q \<Rightarrow>
             (let url = js ''/api/courses/search?query='' @ q;
                  st1 = st\<lparr>fetched := fetched st @ [url]\<rparr>
              in case network url of
                   Rejects e \<Rightarrow> (Inl e, st1)
                 | Responds body \<Rightarrow>
                     (case body of
                        Inl e \<Rightarrow> (Inl e, st1)
                      | Inr data \<Rightarrow> (Inr (), st1\<lparr>suggestions := data\<rparr>))))"

text \<open>Lines 70 and 71.\<close>

definition fetch_catch :: "js_error \<Rightarrow> 'a handler" where
  "fetch_catch error st =
     (Inr (),
      st\<lparr>console := console st @ [ConsoleError (js ''Error fetching suggestions:'') error],
         suggestions := []\<rparr>)"

text \<open>Line 73.\<close>

definition fetch_finally :: "'a handler" where
  "fetch_finally st = (Inr (), st\<lparr>isLoading := False\<rparr>)"

text \<open>
  The asynchronous function handed to \<open>debounce\<close> (lines 59 to 78). Its result is
  the settlement of the promise it returns: \<open>Inl\<close> is a rejection.
\<close>

definition fetchSuggestions_async :: "(jsstring \<Rightarrow> fetch_result) \<Rightarrow> jsstring \<Rightarrow> 'a handler" where
  "fetchSuggestions_async network input st =
     (if length input > 0 then
        try_catch_finally (fetch_block network input) fetch_catch fetch_finally
          (st\<lparr>isLoading := True\<rparr>)
      else (Inr (), st\<lparr>suggestions := []\<rparr>))"

subsection \<open>The debounced function\<close>

text \<open>
  Modelled from the spec: \<open>debounce\<close> of the external package \<open>lodash.debounce\<close>, which
  is not part of the sources. Section 4.2 of the specification gives it trailing
  semantics with a quiet window of the \<open>wait\<close> argument (100 ms at line 78): a call
  only records its argument and restarts the timer; the wrapped function runs when
  the timer elapses, with the argument of the latest call; \<open>cancel\<close> drops a pending
  call. Time is counted in milliseconds.
\<close>

record DebouncedSearchBar = SearchBar +
  pendingCall :: "(jsstring \<times> nat) option"

definition fetchSuggestions :: "jsstring \<Rightarrow> nat \<Rightarrow> DebouncedSearchBar \<Rightarrow> DebouncedSearchBar" where
  "fetchSuggestions input now st = st\<lparr>pendingCall := Some (input, now + 100)\<rparr>"

definition fetchSuggestions_cancel :: "DebouncedSearchBar \<Rightarrow> DebouncedSearchBar" where
  "fetchSuggestions_cancel st = st\<lparr>pendingCall := None\<rparr>"

definition timer_elapses ::
  "(jsstring \<Rightarrow> fetch_result) \<Rightarrow> nat \<Rightarrow> DebouncedSearchBar
     \<Rightarrow> (js_error + unit) \<times> DebouncedSearchBar" where
  "timer_elapses network now st =
     (case pendingCall st of
        None \<Rightarrow> (Inr (), st)
      | Some (input, due) \<Rightarrow>
          if due \<le> now then fetchSuggestions_async network input (st\<lparr>pendingCall := None\<rparr>)
          else (Inr (), st))"

text \<open>Lines 135 to 139.\<close>

definition handleInputChange :: "jsstring \<Rightarrow> nat \<Rightarrow> DebouncedSearchBar \<Rightarrow> DebouncedSearchBar" where
  "handleInputChange input now st = fetchSuggestions input now (st\<lparr>searchInput := input\<rparr>)"

section \<open>Example data\<close>

text \<open>
  The section list of the specification's end-to-end scenario, extended by a second
  record of section 001 that differs in \<open>grades_count\<close> and by a record of another
  instructor.
\<close>

definition smith_2023_001 :: SectionRecord where
  "smith_2023_001 =
     \<lparr>subject_id = js ''CSE'', course_number = js ''1310'', instructor1 = js ''Smith'',
      year = js ''2023'', semester = js ''Fall'', section_number = js ''001'',
      grades_count = 40\<rparr>"

definition smith_2022_002 :: SectionRecord where
  "smith_2022_002 =
     \<lparr>subject_id = js ''CSE'', course_number = js ''1310'', instructor1 = js ''Smith'',
      year = js ''2022'', semester = js ''Spring'', section_number = js ''002'',
      grades_count = 35\<rparr>"

definition smith_2023_001_again :: SectionRecord where
  "smith_2023_001_again =
     \<lparr>subject_id = js ''CSE'', course_number = js ''1310'', instructor1 = js ''Smith'',
      year = js ''2023'', semester = js ''Fall'', section_number = js ''001'',
      grades_count = 12\<rparr>"

definition jones_2023_003 :: SectionRecord where
  "jones_2023_003 =
     \<lparr>subject_id = js ''CSE'', course_number = js ''1310'', instructor1 = js ''Jones'',
      year = js ''2023'', semester = js ''Fall'', section_number = js ''003'',
      grades_count = 28\<rparr>"

definition example_results :: "unit ResultsState" where
  "example_results =
     \<lparr>courses = [smith_2023_001, jones_2023_003, smith_2022_002, smith_2023_001_again],
      loading = False,
      selectedProfessor = Some (js ''Smith''),
      selectedYear = Some (js ''2023''),
      selectedSemester = None,
      selectedSection = None\<rparr>"

text \<open>
  A fetched list in which one record has a blank instructor name, before any
  professor is chosen.
\<close>

definition staff_2023_004 :: SectionRecord where
  "staff_2023_004 =
     \<lparr>subject_id = js ''CSE'', course_number = js ''1310'', instructor1 = [],
      year = js ''2023'', semester = js ''Fall'', section_number = js ''004'',
      grades_count = 17\<rparr>"

definition example_blank_instructor :: "unit ResultsState" where
  "example_blank_instructor =
     \<lparr>courses = [smith_2023_001, staff_2023_004],
      loading = False,
      selectedProfessor = None,
      selectedYear = None,
      selectedSemester = None,
      selectedSection = None\<rparr>"

text \<open>A search bar on the results page of CSE 3320, with three suggestions showing.\<close>

definition example_suggestions :: "Suggestion list" where
  "example_suggestions =
     [\<lparr>suggestion = js ''CSE 3320 OPERATING SYSTEMS'', type = js ''course''\<rparr>,
      \<lparr>suggestion = js ''John Smith'', type = js ''professor''\<rparr>,
      \<lparr>suggestion = js ''Jane Doe'', type = js ''Professor''\<rparr>]"

definition example_props :: SearchBarProps where
  "example_props =
     \<lparr>initialValue = js ''CSE 3320'', resetState = True, course = Some (js ''CSE 3320''),
      professor = None, routeType = Some RouteCourse\<rparr>"

definition example_bar :: DebouncedSearchBar where
  "example_bar =
     \<lparr>searchInput = js ''cs'', suggestions = example_suggestions, isLoading = False,
      console = [], fetched = [], pushed = [], resetStateCalls = 0, pendingCall = None\<rparr>"

definition network_down :: "jsstring \<Rightarrow> fetch_result" where
  "network_down url = Rejects TypeError"

definition network_garbled :: "jsstring \<Rightarrow> fetch_result" where
  "network_garbled url = Responds (Inl SyntaxError)"

definition network_up :: "jsstring \<Rightarrow> fetch_result" where
  "network_up url = Responds (Inr example_suggestions)"

lemmas search_example_defs =
  example_suggestions_def example_props_def example_bar_def network_down_def
  network_garbled_def network_up_def

lemmas char_defs =
  js_def letter_def digit_def whitespace_def unreserved_def trail_surrogate_def
  lead_surrogate_def percent_encode_def utf8_octets_def percent_octet_def hex_of_def
  prepend_def

lemmas example_defs =
  example_results_def smith_2023_001_def smith_2022_002_def smith_2023_001_again_def
  jones_2023_003_def staff_2023_004_def example_blank_instructor_def js_def

section \<open>Properties of the results page\<close>

lemma first_occurrences_dedup_from:
  "map (\<lambda>i. xs ! i)
     (filter (\<lambda>i. key (xs ! i) \<notin> seen \<union> set (map key (take i xs))) [0..<length xs])
   = dedup_from key seen xs"
proof (induction xs arbitrary: seen)
  case Nil
  show ?case by simp
next
  case (Cons x xs)
  have upt: "[0..<length (x # xs)] = 0 # map Suc [0..<length xs]"
    by (simp add: upt_conv_Cons map_Suc_upt del: upt_Suc)
  have tl: "map (\<lambda>i. (x # xs) ! i)
        (filter (\<lambda>i. key ((x # xs) ! i) \<notin> seen \<union> set (map key (take i (x # xs))))
           (map Suc [0..<length xs]))
      = map (\<lambda>i. xs ! i)
        (filter (\<lambda>i. key (xs ! i) \<notin> insert (key x) seen \<union> set (map key (take i xs)))
           [0..<length xs])"
    by (simp add: filter_map comp_def conj_ac)
  have "map (\<lambda>i. (x # xs) ! i)
          (filter (\<lambda>i. key ((x # xs) ! i) \<notin> seen \<union> set (map key (take i (x # xs))))
             [0..<length (x # xs)])
        = (if key x \<in> seen then [] else [x]) @
          map (\<lambda>i. (x # xs) ! i)
            (filter (\<lambda>i. key ((x # xs) ! i) \<notin> seen \<union> set (map key (take i (x # xs))))
               (map Suc [0..<length xs]))"
    by (subst upt) simp
  also have "\<dots> = (if key x \<in> seen then [] else [x]) @ dedup_from key (insert (key x) seen) xs"
    by (simp only: tl Cons.IH)
  also have "\<dots> = dedup_from key seen (x # xs)"
    by (simp add: insert_absorb)
  finally show ?case .
qed

lemma first_occurrences_eq: "first_occurrences key xs = dedup_from key {} xs"
  using first_occurrences_dedup_from [of xs key "{}"] by (simp add: first_occurrences_def)

lemma dedup_from_keys_notin: "x \<in> set (dedup_from key seen xs) \<Longrightarrow> key x \<notin> seen"
  by (induction xs arbitrary: seen) (auto split: if_splits)

lemma dedup_from_subset: "set (dedup_from key seen xs) \<subseteq> set xs"
  by (induction xs arbitrary: seen) (auto split: if_splits)

lemma distinct_dedup_from: "distinct (map key (dedup_from key seen xs))"
  by (induction xs arbitrary: seen) (auto dest: dedup_from_keys_notin)

lemma keys_dedup_from: "key ` set (dedup_from key seen xs) = key ` set xs - seen"
  by (induction xs arbitrary: seen) auto

lemma fold_reduce_unique:
  "fold reduce_unique xs acc = acc @ dedup_from section_number (section_number ` set acc) xs"
proof (induction xs arbitrary: acc)
  case Nil
  show ?case by simp
next
  case (Cons x xs)
  have mem: "list_ex (\<lambda>course. section_number course = section_number x) acc
      \<longleftrightarrow> section_number x \<in> section_number ` set acc"
    unfolding list_ex_iff image_iff by metis
  have step: "reduce_unique x acc
      = (if section_number x \<in> section_number ` set acc then acc else acc @ [x])"
    by (simp only: reduce_unique_def mem)
  show ?case
    by (simp add: Cons.IH step insert_absorb)
qed

lemma fold_Set_spread:
  "fold (\<lambda>x seen. if x \<in> set seen then seen else seen @ [x]) xs acc
   = acc @ dedup_from (\<lambda>x. x) (set acc) xs"
  by (induction xs arbitrary: acc) (simp_all add: insert_commute)

lemma Set_spread_first_occurrences: "Set_spread xs = first_occurrences (\<lambda>x. x) xs"
  by (simp add: Set_spread_def fold_Set_spread first_occurrences_eq)

lemma distinct_Set_spread: "distinct (Set_spread xs)"
  using distinct_dedup_from [of "\<lambda>x. x" "{}" xs]
  by (simp add: Set_spread_def fold_Set_spread)

lemma set_Set_spread: "set (Set_spread xs) = set xs"
  using keys_dedup_from [of "\<lambda>x. x" "{}" xs]
  by (simp add: Set_spread_def fold_Set_spread)

lemma filter_matchesYearSemester:
  "filter (matchesYearSemester st) cs = narrowed (selectedYear st) (selectedSemester st) cs"
  unfolding narrowed_def
  by (rule filter_cong) (auto simp: matchesYearSemester_def truthy_def split: option.splits)



text \<open>
  Claim C1. For every fetched section list and every selection,
  \<open>finalFilteredCourses\<close> is the professor-filtered list, narrowed by the year when a
  year is set and by the semester when a semester is set, then deduplicated keeping
  the first occurrence of each \<open>section_number\<close>; hence it holds at most one record
  per \<open>section_number\<close>, whatever duplicates the fetched list contains. A selection
  is set when the code's test \<open>selectedYear ? \<dots>\<close> succeeds, that is, when it is
  neither \<open>null\<close> nor the empty string.
\<close>

theorem finalFilteredCourses_dedup:
  "finalFilteredCourses st
     = first_occurrences section_number
         (narrowed (selectedYear st) (selectedSemester st) (filteredCourses st))
   \<and> distinct (map section_number (finalFilteredCourses st))"
proof -
  have eq: "finalFilteredCourses st
      = dedup_from section_number {}
          (narrowed (selectedYear st) (selectedSemester st) (filteredCourses st))"
    by (simp add: finalFilteredCourses_def fold_reduce_unique filter_matchesYearSemester)
  show ?thesis
    by (simp add: eq first_occurrences_eq distinct_dedup_from)
qed

theorem finalFilteredCourses_dedup_witness:
  "filteredCourses example_results = [smith_2023_001, smith_2022_002, smith_2023_001_again]
   \<and> finalFilteredCourses example_results = [smith_2023_001]
   \<and> distinct (map section_number (finalFilteredCourses example_results))"
proof -
  have f: "filteredCourses example_results
      = [smith_2023_001, smith_2022_002, smith_2023_001_again]"
    by (simp add: filteredCourses_def truthy_def example_defs)
  have n: "narrowed (selectedYear example_results) (selectedSemester example_results)
             [smith_2023_001, smith_2022_002, smith_2023_001_again]
      = [smith_2023_001, smith_2023_001_again]"
    by (simp add: narrowed_def truthy_def example_defs)
  have o: "first_occurrences section_number [smith_2023_001, smith_2023_001_again]
      = [smith_2023_001]"
    by (simp add: first_occurrences_def example_defs upt_rec)
  show ?thesis
    using finalFilteredCourses_dedup [of example_results] by (simp add: f n o)
qed

text \<open>
  Claim C7, as stated, fails: \<open>filteredCourses\<close> is not, for every selection state,
  the list of the records whose \<open>instructor1\<close> equals \<open>selectedProfessor\<close>. A blank
  instructor name is listed in \<open>professors\<close>; clicking it stores the empty string in
  \<open>selectedProfessor\<close>; the test \<open>selectedProfessor ? \<dots>\<close> then fails, and
  \<open>filteredCourses\<close> is empty although a fetched record has exactly that
  \<open>instructor1\<close>.
\<close>

theorem blank_professor_not_filtered:
  "[] \<in> set (professors example_blank_instructor)
   \<and> selectedProfessor (handleProfessorClick [] example_blank_instructor)
       = Some (instructor1 staff_2023_004)
   \<and> staff_2023_004 \<in> set (courses (handleProfessorClick [] example_blank_instructor))
   \<and> filteredCourses (handleProfessorClick [] example_blank_instructor) = []"
  by (simp add: professors_def Set_spread_def filteredCourses_def truthy_def
        handleProfessorClick_def example_defs)

text \<open>
  Claim C7, amended. \<open>professors\<close> is the list of distinct \<open>instructor1\<close> values of
  all records in first-seen order; \<open>filteredCourses\<close> is exactly the list of records
  whose \<open>instructor1\<close> equals \<open>selectedProfessor\<close> when \<open>selectedProfessor\<close> is a
  non-empty string, and is empty when \<open>selectedProfessor\<close> is \<open>null\<close> or the empty
  string (the two values for which the code's test \<open>selectedProfessor ? \<dots>\<close> fails);
  \<open>years\<close> and \<open>semesters\<close> are the distinct \<open>year\<close> and \<open>semester\<close> values of
  \<open>filteredCourses\<close>.
\<close>

theorem derived_lists:
  "professors st = first_occurrences (\<lambda>p. p) (map instructor1 (courses st))
   \<and> distinct (professors st)
   \<and> set (professors st) = instructor1 ` set (courses st)
   \<and> (\<forall>p. selectedProfessor st = Some p \<and> p \<noteq> []
          \<longrightarrow> filteredCourses st = filter (\<lambda>c. instructor1 c = p) (courses st))
   \<and> (selectedProfessor st = None \<or> selectedProfessor st = Some []
          \<longrightarrow> filteredCourses st = [])
   \<and> years st = first_occurrences (\<lambda>y. y) (map year (filteredCourses st))
   \<and> distinct (years st)
   \<and> set (years st) = year ` set (filteredCourses st)
   \<and> semesters st = first_occurrences (\<lambda>s. s) (map semester (filteredCourses st))
   \<and> distinct (semesters st)
   \<and> set (semesters st) = semester ` set (filteredCourses st)"
proof -
  have p: "professors st = first_occurrences (\<lambda>p. p) (map instructor1 (courses st))
      \<and> distinct (professors st) \<and> set (professors st) = instructor1 ` set (courses st)"
    by (simp add: professors_def Set_spread_first_occurrences [symmetric]
          distinct_Set_spread set_Set_spread)
  have f1: "\<forall>p. selectedProfessor st = Some p \<and> p \<noteq> []
      \<longrightarrow> filteredCourses st = filter (\<lambda>c. instructor1 c = p) (courses st)"
    by (auto simp: filteredCourses_def truthy_def intro: filter_cong)
  have f2: "selectedProfessor st = None \<or> selectedProfessor st = Some []
      \<longrightarrow> filteredCourses st = []"
    by (auto simp: filteredCourses_def truthy_def)
  have y: "years st = first_occurrences (\<lambda>y. y) (map year (filteredCourses st))
      \<and> distinct (years st) \<and> set (years st) = year ` set (filteredCourses st)"
    by (simp add: years_def Set_spread_first_occurrences [symmetric]
          distinct_Set_spread set_Set_spread)
  have s: "semesters st = first_occurrences (\<lambda>s. s) (map semester (filteredCourses st))
      \<and> distinct (semesters st) \<and> set (semesters st) = semester ` set (filteredCourses st)"
    by (simp add: semesters_def Set_spread_first_occurrences [symmetric]
          distinct_Set_spread set_Set_spread)
  from p f1 f2 y s show ?thesis by blast
qed

theorem derived_lists_witness:
  "professors example_results = [js ''Smith'', js ''Jones'']
   \<and> filteredCourses example_results
       = [smith_2023_001, smith_2022_002, smith_2023_001_again]
   \<and> years example_results = [js ''2023'', js ''2022'']
   \<and> semesters example_results = [js ''Fall'', js ''Spring'']
   \<and> filteredCourses (example_results\<lparr>selectedProfessor := None\<rparr>) = []"
proof -
  have sel: "selectedProfessor example_results = Some (js ''Smith'') \<and> js ''Smith'' \<noteq> []"
    by (simp add: example_defs)
  have c: "courses (example_results\<lparr>selectedProfessor := None\<rparr>) = courses example_results"
    by simp
  have fl: "filter (\<lambda>c. instructor1 c = js ''Smith'') (courses example_results)
      = [smith_2023_001, smith_2022_002, smith_2023_001_again]"
    by (simp add: example_defs)
  have pr: "first_occurrences (\<lambda>p. p) (map instructor1 (courses example_results))
      = [js ''Smith'', js ''Jones'']"
    by (simp add: first_occurrences_def example_defs upt_rec)
  have yr: "first_occurrences (\<lambda>y. y)
        [year smith_2023_001, year smith_2022_002, year smith_2023_001_again]
      = [js ''2023'', js ''2022'']"
    by (simp add: first_occurrences_def example_defs upt_rec)
  have sm: "first_occurrences (\<lambda>s. s)
        [semester smith_2023_001, semester smith_2022_002, semester smith_2023_001_again]
      = [js ''Fall'', js ''Spring'']"
    by (simp add: first_occurrences_def example_defs upt_rec)
  show ?thesis
    using derived_lists [of example_results]
      derived_lists [of "example_results\<lparr>selectedProfessor := None\<rparr>"] sel
    by (simp add: fl pr yr sm)
qed

text \<open>
  Claim C9. \<open>handleProfessorClick(p)\<close> sets \<open>selectedProfessor\<close> to \<open>p\<close>, resets
  \<open>selectedYear\<close>, \<open>selectedSemester\<close> and \<open>selectedSection\<close> to \<open>null\<close>, and leaves
  the fetched \<open>courses\<close> list (and the \<open>loading\<close> flag) unchanged.
\<close>

theorem handleProfessorClick_resets:
  "selectedProfessor (handleProfessorClick p st) = Some p
   \<and> selectedYear (handleProfessorClick p st) = None
   \<and> selectedSemester (handleProfessorClick p st) = None
   \<and> selectedSection (handleProfessorClick p st) = None
   \<and> courses (handleProfessorClick p st) = courses st
   \<and> loading (handleProfessorClick p st) = loading st"
  by (simp add: handleProfessorClick_def)

section \<open>Properties of the search bar\<close>

subsection \<open>The normaliser\<close>

lemma letter_not_whitespace: "letter c \<Longrightarrow> \<not> whitespace c"
  unfolding letter_def whitespace_def by (auto simp: word_le_nat_alt)

lemma digit_not_whitespace: "digit c \<Longrightarrow> \<not> whitespace c"
  unfolding digit_def whitespace_def by (auto simp: word_le_nat_alt)

lemma digit_not_letter: "digit c \<Longrightarrow> \<not> letter c"
  unfolding digit_def letter_def by (auto simp: word_le_nat_alt)

lemma letter_g_letter: "letter_g c \<Longrightarrow> letter c"
  unfolding letter_g_def letter_def by auto

lemma whitespace_space: "whitespace 0x20"
  by (simp add: whitespace_def)

lemma filter_dropWhile_not: "filter (\<lambda>c. \<not> P c) (dropWhile P xs) = filter (\<lambda>c. \<not> P c) xs"
  by (induction xs) auto

lemma strip_filter: "replace_whitespace [] s = filter (\<lambda>c. \<not> whitespace c) s"
  by (induction "[] :: jsstring" s rule: replace_whitespace.induct)
     (simp_all add: filter_dropWhile_not)

lemma filter_collapse:
  "list_all whitespace r \<Longrightarrow>
   filter (\<lambda>c. \<not> whitespace c) (replace_whitespace r s) = filter (\<lambda>c. \<not> whitespace c) s"
proof (induction r s rule: replace_whitespace.induct)
  case (1 r)
  show ?case by simp
next
  case (2 r c cs)
  have "filter (\<lambda>c. \<not> whitespace c) r = []"
    using "2.prems" by (simp add: list_all_iff)
  with 2 show ?case by (simp add: filter_dropWhile_not)
qed

lemma filter_trim: "filter (\<lambda>c. \<not> whitespace c) (trim s) = filter (\<lambda>c. \<not> whitespace c) s"
  by (simp add: trim_def rev_filter [symmetric] filter_dropWhile_not)

lemma coursePattern_iff:
  "coursePattern s \<longleftrightarrow>
   (\<exists>L D. s = L @ D \<and> L \<noteq> [] \<and> D \<noteq> [] \<and> list_all letter L \<and> list_all digit D)"
proof
  assume "coursePattern s"
  then obtain k where k: "1 \<le> k" "k < length s"
    "list_all letter (take k s)" "list_all digit (drop k s)"
    by (auto simp: coursePattern_def list_ex_iff)
  have "s = take k s @ drop k s" by simp
  moreover have "take k s \<noteq> []" "drop k s \<noteq> []" using k by auto
  ultimately show "\<exists>L D. s = L @ D \<and> L \<noteq> [] \<and> D \<noteq> [] \<and> list_all letter L \<and> list_all digit D"
    using k by blast
next
  assume "\<exists>L D. s = L @ D \<and> L \<noteq> [] \<and> D \<noteq> [] \<and> list_all letter L \<and> list_all digit D"
  then obtain L D where s: "s = L @ D" "L \<noteq> []" "D \<noteq> []" "list_all letter L" "list_all digit D"
    by blast
  have "0 < length L" "0 < length D" using s by simp_all
  then have "length L \<in> set [1..<length s]" using s(1) by (simp add: Suc_le_eq)
  moreover have "list_all letter (take (length L) s)" "list_all digit (drop (length L) s)"
    using s by simp_all
  ultimately show "coursePattern s"
    unfolding coursePattern_def list_ex_iff by blast
qed

lemma professorPattern_iff:
  "professorPattern s \<longleftrightarrow> (\<exists>L g. s = L @ [g] \<and> L \<noteq> [] \<and> list_all letter L \<and> letter_g g)"
proof
  assume "professorPattern s"
  then obtain k where k: "1 \<le> k" "k < length s"
    "list_all letter (take k s)" "case drop k s of [g] \<Rightarrow> letter_g g | _ \<Rightarrow> False"
    by (auto simp: professorPattern_def list_ex_iff)
  from k(4) obtain g where g: "drop k s = [g]" "letter_g g"
    by (auto split: list.splits)
  have "s = take k s @ [g]" using g(1) by (metis append_take_drop_id)
  moreover have "take k s \<noteq> []" using k by auto
  ultimately show "\<exists>L g. s = L @ [g] \<and> L \<noteq> [] \<and> list_all letter L \<and> letter_g g"
    using k g by blast
next
  assume "\<exists>L g. s = L @ [g] \<and> L \<noteq> [] \<and> list_all letter L \<and> letter_g g"
  then obtain L g where s: "s = L @ [g]" "L \<noteq> []" "list_all letter L" "letter_g g"
    by blast
  have "0 < length L" using s by simp
  then have "length L \<in> set [1..<length s]" using s(1) by (simp add: Suc_le_eq)
  moreover have "list_all letter (take (length L) s)"
    "case drop (length L) s of [g] \<Rightarrow> letter_g g | _ \<Rightarrow> False"
    using s by simp_all
  ultimately show "professorPattern s"
    unfolding professorPattern_def list_ex_iff by blast
qed

lemma takeWhile_run:
  "list_all P L \<Longrightarrow> D \<noteq> [] \<Longrightarrow> \<not> P (hd D) \<Longrightarrow> takeWhile P (L @ D) = L \<and> dropWhile P (L @ D) = D"
  by (induction L) (auto simp: neq_Nil_conv)

lemma takeWhile_all: "list_all P D \<Longrightarrow> takeWhile P D = D \<and> dropWhile P D = []"
  by (induction D) auto

lemma replace_course_split:
  assumes "L \<noteq> []" "list_all letter L" "D \<noteq> []" "list_all digit D"
  shows "replace_course (L @ D) = L @ js '' '' @ D"
proof -
  have "\<not> letter (hd D)" using assms(3,4) by (cases D) (auto dest: digit_not_letter)
  then have r: "takeWhile letter (L @ D) = L" "dropWhile letter (L @ D) = D"
    using takeWhile_run [of letter L D] assms by simp_all
  have m: "course_match (L @ D) = Some (L, D, [])"
    using assms by (simp add: course_match_def r takeWhile_all)
  obtain c cs where "L @ D = c # cs" using assms(1) by (cases L) auto
  then show ?thesis using m by (metis (no_types, lifting) replace_course.simps(2) option.simps(5) case_prod_conv append_Nil2)
qed


lemma normalize_course:
  assumes "filter (\<lambda>c. \<not> whitespace c) input = L @ D"
    "L \<noteq> []" "list_all letter L" "D \<noteq> []" "list_all digit D"
  shows "normalizeSearchInput input = L @ js '' '' @ D"
proof -
  have "coursePattern (L @ D)" using assms(2-5) coursePattern_iff by blast
  then show ?thesis
    using assms by (simp add: normalizeSearchInput_def strip_filter replace_course_split)
qed

lemma filter_letters: "list_all letter L \<Longrightarrow> filter (\<lambda>c. \<not> whitespace c) L = L"
  by (induction L) (auto dest: letter_not_whitespace)

lemma filter_digits: "list_all digit D \<Longrightarrow> filter (\<lambda>c. \<not> whitespace c) D = D"
  by (induction D) (auto dest: digit_not_whitespace)

lemma js_space: "js '' '' = [0x20]"
  by (simp add: js_def)

lemma js_space_g: "js '' g'' = [0x20, 0x67]"
  by (simp add: js_def)

lemma not_coursePattern_letters: "list_all letter s \<Longrightarrow> \<not> coursePattern s"
proof
  assume a: "list_all letter s" and "coursePattern s"
  then obtain L D where s: "s = L @ D" "D \<noteq> []" "list_all digit D"
    using coursePattern_iff by blast
  then have "digit (last s)" "letter (last s)"
    using a by (auto simp: list_all_iff)
  then show False using digit_not_letter by blast
qed

lemma normalize_professor:
  assumes "filter (\<lambda>c. \<not> whitespace c) input = L @ [g]"
    "L \<noteq> []" "list_all letter L" "letter_g g"
  shows "normalizeSearchInput input = L @ js '' g''"
proof -
  have "list_all letter (L @ [g])" using assms(3,4) by (simp add: letter_g_letter)
  then have "\<not> coursePattern (L @ [g])" by (rule not_coursePattern_letters)
  moreover have "professorPattern (L @ [g])" using assms(2-4) professorPattern_iff by blast
  ultimately show ?thesis
    using assms by (simp add: normalizeSearchInput_def strip_filter replace_final_g_def)
qed

lemma dropWhile_hd: "dropWhile P xs = [] \<or> \<not> P (hd (dropWhile P xs))"
  by (metis hd_dropWhile)

lemma replace_whitespace_hd:
  "s = [] \<or> \<not> whitespace (hd s) \<Longrightarrow>
   replace_whitespace r s = [] \<or> \<not> whitespace (hd (replace_whitespace r s))"
  by (cases s) auto

lemma single_spaced_collapse: "single_spaced (replace_whitespace [0x20] s)"
proof (induction "[0x20] :: jsstring" s rule: replace_whitespace.induct)
  case 1
  show ?case by simp
next
  case (2 c cs)
  show ?case
  proof (cases "whitespace c")
    case True
    have "replace_whitespace [0x20] (dropWhile whitespace cs) = []
        \<or> \<not> whitespace (hd (replace_whitespace [0x20] (dropWhile whitespace cs)))"
      by (rule replace_whitespace_hd) (rule dropWhile_hd)
    with True 2 show ?thesis by simp
  next
    case False
    with 2 show ?thesis by simp
  qed
qed

lemma collapse_single_spaced: "single_spaced s \<Longrightarrow> replace_whitespace [0x20] s = s"
proof (induction s)
  case Nil
  show ?case by simp
next
  case (Cons c cs)
  show ?case
  proof (cases "whitespace c")
    case True
    with Cons.prems have c: "c = 0x20" and h: "cs = [] \<or> \<not> whitespace (hd cs)" by auto
    from h have "dropWhile whitespace cs = cs" by (cases cs) auto
    with True c Cons show ?thesis by simp
  next
    case False
    with Cons show ?thesis by simp
  qed
qed

lemma single_spaced_dropWhile: "single_spaced s \<Longrightarrow> single_spaced (dropWhile P s)"
  by (induction s) auto

lemma single_spaced_prefix: "single_spaced (a @ b) \<Longrightarrow> single_spaced a"
proof (induction a)
  case Nil
  show ?case by simp
next
  case (Cons c a)
  then show ?case by (cases a) auto
qed

lemma single_spaced_trim: "single_spaced s \<Longrightarrow> single_spaced (trim s)"
proof -
  assume s: "single_spaced s"
  let ?d = "dropWhile whitespace s"
  have "?d = rev (dropWhile whitespace (rev ?d)) @ rev (takeWhile whitespace (rev ?d))"
    by (metis rev_append rev_rev_ident takeWhile_dropWhile_id)
  then have "single_spaced (rev (dropWhile whitespace (rev ?d)) @ rev (takeWhile whitespace (rev ?d)))"
    using single_spaced_dropWhile [OF s, of whitespace] by simp
  then show ?thesis unfolding trim_def by (rule single_spaced_prefix)
qed

lemma trim_ends: "trim s = [] \<or> (\<not> whitespace (hd (trim s)) \<and> \<not> whitespace (last (trim s)))"
proof (cases "trim s = []")
  case True
  then show ?thesis by simp
next
  case False
  let ?d = "dropWhile whitespace s"
  let ?e = "dropWhile whitespace (rev ?d)"
  from False have e: "?e \<noteq> []" by (simp add: trim_def)
  then have l: "\<not> whitespace (hd ?e)" by (metis hd_dropWhile)
  have "last (trim s) = hd ?e" using e by (simp add: trim_def last_rev)
  moreover
  have d: "?d \<noteq> []"
  proof
    assume a: "?d = []"
    have "?e = []" unfolding a by simp
    with e show False by blast
  qed
  then have "\<not> whitespace (hd ?d)" by (metis hd_dropWhile)
  moreover have "hd (trim s) = hd ?d"
  proof -
    have "rev ?d = takeWhile whitespace (rev ?d) @ ?e" by simp
    then have "?d = rev ?e @ rev (takeWhile whitespace (rev ?d))"
      by (metis rev_append rev_rev_ident)
    then have "hd ?d = hd (rev ?e)" using e by (metis hd_append2 rev_is_Nil_conv)
    then show ?thesis by (simp add: trim_def)
  qed
  ultimately show ?thesis using l by simp
qed

lemma trim_id: "s = [] \<or> (\<not> whitespace (hd s) \<and> \<not> whitespace (last s)) \<Longrightarrow> trim s = s"
proof (cases s)
  case Nil
  then show ?thesis by (simp add: trim_def)
next
  case (Cons c cs)
  assume "s = [] \<or> (\<not> whitespace (hd s) \<and> \<not> whitespace (last s))"
  with Cons have h: "\<not> whitespace (hd s)" "\<not> whitespace (last s)" "s \<noteq> []" by auto
  then have "dropWhile whitespace s = s" by (cases s) auto
  moreover have "dropWhile whitespace (rev s) = rev s"
    using h by (cases "rev s") (auto simp: hd_rev)
  ultimately show ?thesis by (simp add: trim_def)
qed

lemma normalize_other:
  assumes "\<not> coursePattern (filter (\<lambda>c. \<not> whitespace c) input)"
    "\<not> professorPattern (filter (\<lambda>c. \<not> whitespace c) input)"
  shows "normalizeSearchInput (trim (replace_whitespace [0x20] input))
         = trim (replace_whitespace [0x20] input)"
proof -
  let ?r = "trim (replace_whitespace [0x20] input)"
  have f: "filter (\<lambda>c. \<not> whitespace c) ?r = filter (\<lambda>c. \<not> whitespace c) input"
    by (simp add: filter_trim filter_collapse whitespace_space)
  have "single_spaced ?r" by (intro single_spaced_trim single_spaced_collapse)
  then have c: "replace_whitespace [0x20] ?r = ?r" by (rule collapse_single_spaced)
  have t: "trim ?r = ?r" by (rule trim_id) (rule trim_ends)
  show ?thesis
    using assms by (simp add: normalizeSearchInput_def strip_filter f js_space c t)
qed

lemma normalize_idem: "normalizeSearchInput (normalizeSearchInput x) = normalizeSearchInput x"
proof -
  let ?s = "filter (\<lambda>c. \<not> whitespace c) x"
  consider (course) "coursePattern ?s"
    | (prof) "\<not> coursePattern ?s" "professorPattern ?s"
    | (other) "\<not> coursePattern ?s" "\<not> professorPattern ?s"
    by blast
  then show ?thesis
  proof cases
    case course
    then obtain L D where s: "?s = L @ D" "L \<noteq> []" "D \<noteq> []" "list_all letter L" "list_all digit D"
      using coursePattern_iff by blast
    then have n: "normalizeSearchInput x = L @ js '' '' @ D"
      by (intro normalize_course) simp_all
    have "filter (\<lambda>c. \<not> whitespace c) (L @ js '' '' @ D) = L @ D"
      using s by (simp add: filter_letters filter_digits js_space whitespace_space)
    then have "normalizeSearchInput (L @ js '' '' @ D) = L @ js '' '' @ D"
      using s by (intro normalize_course) simp_all
    with n show ?thesis by simp
  next
    case prof
    then obtain L g where s: "?s = L @ [g]" "L \<noteq> []" "list_all letter L" "letter_g g"
      using professorPattern_iff by blast
    then have n: "normalizeSearchInput x = L @ js '' g''"
      by (intro normalize_professor) simp_all
    have g: "\<not> whitespace 0x67" by (simp add: whitespace_def)
    have "filter (\<lambda>c. \<not> whitespace c) (L @ js '' g'') = L @ [0x67]"
      using s by (simp add: filter_letters js_space_g whitespace_space g)
    moreover have "letter_g 0x67" by (simp add: letter_g_def)
    ultimately have "normalizeSearchInput (L @ js '' g'') = L @ js '' g''"
      using s by (intro normalize_professor) simp_all
    with n show ?thesis by simp
  next
    case other
    then have n: "normalizeSearchInput x = trim (replace_whitespace [0x20] x)"
      by (simp add: normalizeSearchInput_def strip_filter js_space)
    show ?thesis unfolding n using other by (rule normalize_other)
  qed
qed

text \<open>
  Claim C4. When the input with all white space removed consists of one or more
  letters \<open>L\<close> followed by one or more digits \<open>D\<close> (it matches
  \<open>^[A-Za-z]+\d+$\<close>), \<open>normalizeSearchInput\<close> returns \<open>L\<close>, one space, and \<open>D\<close>;
  the letters are returned as they were typed.
\<close>

theorem normalizeSearchInput_course_code:
  assumes "filter (\<lambda>c. \<not> whitespace c) input = L @ D"
    and "L \<noteq> []" and "list_all letter L"
    and "D \<noteq> []" and "list_all digit D"
  shows "normalizeSearchInput input = L @ js '' '' @ D"
  using assms by (rule normalize_course)

theorem normalizeSearchInput_course_code_witness:
  "normalizeSearchInput (js ''cse1310'') = js ''cse 1310''
   \<and> normalizeSearchInput (js '' cSe 13 10'') = js ''cSe 1310''"
proof -
  have l1: "js ''cse'' \<noteq> [] \<and> list_all letter (js ''cse'')"
    and l2: "js ''cSe'' \<noteq> [] \<and> list_all letter (js ''cSe'')"
    and d: "js ''1310'' \<noteq> [] \<and> list_all digit (js ''1310'')"
    by (simp_all add: js_def letter_def digit_def)
  have f1: "filter (\<lambda>c. \<not> whitespace c) (js ''cse1310'') = js ''cse'' @ js ''1310''"
    and f2: "filter (\<lambda>c. \<not> whitespace c) (js '' cSe 13 10'') = js ''cSe'' @ js ''1310''"
    by (simp_all add: js_def whitespace_def)
  have "normalizeSearchInput (js ''cse1310'') = js ''cse'' @ js '' '' @ js ''1310''"
    using normalizeSearchInput_course_code [OF f1] l1 d by blast
  moreover have "normalizeSearchInput (js '' cSe 13 10'') = js ''cSe'' @ js '' '' @ js ''1310''"
    using normalizeSearchInput_course_code [OF f2] l2 d by blast
  ultimately show ?thesis by (simp add: js_def)
qed

text \<open>
  Claim C5. \<open>normalizeSearchInput\<close> is idempotent: normalising a normalised string
  changes nothing, for every input string.
\<close>

theorem normalizeSearchInput_idempotent:
  "normalizeSearchInput (normalizeSearchInput x) = normalizeSearchInput x"
  by (rule normalize_idem)

theorem normalizeSearchInput_idempotent_witness:
  "normalizeSearchInput (js ''marnimG'') = js ''marnim g''
   \<and> normalizeSearchInput (js ''marnim g'') = js ''marnim g''"
proof -
  have "normalizeSearchInput (js ''marnimG'') = js ''marnim g''"
    by (simp add: normalizeSearchInput_def coursePattern_def professorPattern_def
          replace_final_g_def letter_g_def char_defs)
  then show ?thesis
    using normalizeSearchInput_idempotent [of "js ''marnimG''"] by simp
qed

subsection \<open>handleSearch\<close>

lemma split_on_nonempty: "split_on sep s \<noteq> []"
  by (induction s) (auto split: list.splits)

lemma split_on_sep_free: "sep \<notin> set a \<Longrightarrow> split_on sep a = [a]"
  by (induction a) auto

lemma split_on_append: "sep \<notin> set a \<Longrightarrow> split_on sep (a @ sep # b) = a # split_on sep b"
  by (induction a) auto

lemma split_on_tokens: "t \<in> set (split_on sep s) \<Longrightarrow> sep \<notin> set t"
proof (induction s arbitrary: t)
  case Nil
  then show ?case by simp
next
  case (Cons c cs)
  then show ?case
    by (cases "split_on sep cs") (auto simp: split_on_nonempty split: if_splits)
qed

lemma courseSuggestion_two:
  assumes "split_on 0x20 selected = p # n # rest"
  shows "courseSuggestion selected = p @ js '' '' @ n"
    and "split_on 0x20 (courseSuggestion selected) = [p, n]"
proof -
  show c: "courseSuggestion selected = p @ js '' '' @ n"
    by (simp add: courseSuggestion_def assms)
  have "p \<in> set (split_on 0x20 selected)" "n \<in> set (split_on 0x20 selected)"
    by (simp_all add: assms)
  then have "0x20 \<notin> set p" "0x20 \<notin> set n" by (auto dest: split_on_tokens)
  then show "split_on 0x20 (courseSuggestion selected) = [p, n]"
    by (simp add: c js_space split_on_append split_on_sep_free)
qed

lemma digits_not_NaN:
  assumes "n \<noteq> []" "list_all digit n"
  shows "\<not> isNaN_Number n"
proof -
  obtain c r where n: "n = c # r" using assms(1) by (cases n) auto
  have "digit (hd n)" "digit (last n)" using assms by (auto simp: list_all_iff)
  then have t: "trim n = n"
    by (intro trim_id) (auto dest: digit_not_whitespace)
  have c: "c \<noteq> 0x2B" "c \<noteq> 0x2D" using assms(2) n by (auto simp: digit_def)
  have "StrUnsignedDecimalLiteral n"
    using assms by (simp add: StrUnsignedDecimalLiteral_def takeWhile_all)
  then have "StrDecimalLiteral n" using c n by (simp add: StrDecimalLiteral_def)
  then show ?thesis by (simp add: isNaN_Number_def t)
qed

lemma searchedValue_course_code:
  assumes "split_on 0x20 selected = p # n # rest" "length n = 4" "list_all digit n"
  shows "searchedValue selected = p @ js '' '' @ n"
proof -
  have "n \<noteq> []" using assms(2) by auto
  then have "\<not> isNaN_Number n" using assms(3) by (rule digits_not_NaN)
  then show ?thesis
    using assms(2) by (simp add: searchedValue_def courseSuggestion_two(2) [OF assms(1)])
qed

lemma isProfessor_iff:
  "isProfessor suggs selected \<longleftrightarrow>
   (\<exists>s \<in> set suggs. suggestion s = selected \<and> type s = js ''professor'')"
  by (simp add: isProfessor_def list_ex_iff)

lemma handleSearch_pushed:
  assumes "encodeURIComponent (searchedValue selected) = Inr q"
  shows "handleSearch props selected st =
     (Inr (), st\<lparr>console := console st @ [ConsoleLog (course props) selected],
                 searchInput := selected, suggestions := [],
                 resetStateCalls := resetStateCalls st +
                    (if \<not> alreadyDisplayed props selected \<and> resetState props then 1 else 0),
                 pushed := pushed st @
                    [(if isProfessor (suggestions st) selected then js ''/results?professor=''
                      else js ''/results?course='') @ q]\<rparr>)"
  using assms by (simp add: handleSearch_def Let_def)

lemma handleSearch_throws:
  assumes "encodeURIComponent (searchedValue selected) = Inl e"
  shows "handleSearch props selected st =
     (Inl e, st\<lparr>console := console st @ [ConsoleLog (course props) selected],
                 searchInput := selected, suggestions := [],
                 resetStateCalls := resetStateCalls st +
                    (if \<not> alreadyDisplayed props selected \<and> resetState props then 1 else 0)\<rparr>)"
  using assms by (simp add: handleSearch_def Let_def)

lemma resetStateCalls_after_handleSearch:
  "resetStateCalls (snd (handleSearch props selected st))
   = resetStateCalls st + (if \<not> alreadyDisplayed props selected \<and> resetState props then 1 else 0)"
  by (cases "encodeURIComponent (searchedValue selected)")
     (simp_all add: handleSearch_throws handleSearch_pushed)

text \<open>
  Claim C3. In \<open>handleSearch\<close>, when the first two space-separated terms of the
  selected suggestion equal the displayed \<open>course\<close> and \<open>routeType\<close> is "course", or
  the selected suggestion equals the displayed \<open>professor\<close> and \<open>routeType\<close> is
  "professor", the \<open>resetState\<close> callback is not invoked; otherwise a supplied
  callback is invoked exactly once (and without a callback there is nothing to
  invoke).
\<close>

theorem handleSearch_reset:
  "((course props = Some (join_with (js '' '') (take 2 (split_on 0x20 selected)))
       \<and> routeType props = Some RouteCourse)
     \<or> (professor props = Some selected \<and> routeType props = Some RouteProfessor)
     \<longrightarrow> resetStateCalls (snd (handleSearch props selected st)) = resetStateCalls st)
   \<and> (\<not> ((course props = Some (join_with (js '' '') (take 2 (split_on 0x20 selected)))
            \<and> routeType props = Some RouteCourse)
          \<or> (professor props = Some selected \<and> routeType props = Some RouteProfessor))
       \<and> resetState props
     \<longrightarrow> resetStateCalls (snd (handleSearch props selected st)) = resetStateCalls st + 1)
   \<and> (\<not> resetState props
     \<longrightarrow> resetStateCalls (snd (handleSearch props selected st)) = resetStateCalls st)"
  by (simp add: resetStateCalls_after_handleSearch alreadyDisplayed_def courseSuggestion_def)

theorem handleSearch_reset_witness:
  "resetStateCalls
     (snd (handleSearch example_props (js ''CSE 3320 OPERATING SYSTEMS'') example_bar)) = 0
   \<and> resetStateCalls (snd (handleSearch example_props (js ''CSE 1310 INTRO'') example_bar)) = 1
   \<and> resetStateCalls
       (snd (handleSearch (example_props\<lparr>resetState := False\<rparr>) (js ''CSE 1310 INTRO'')
          example_bar)) = 0"
proof -
  have same: "join_with (js '' '') (take 2 (split_on 0x20 (js ''CSE 3320 OPERATING SYSTEMS'')))
      = js ''CSE 3320''"
    and other: "join_with (js '' '') (take 2 (split_on 0x20 (js ''CSE 1310 INTRO'')))
      = js ''CSE 1310''"
    by (simp_all add: js_def)
  have ne: "js ''CSE 3320'' \<noteq> js ''CSE 1310''" by (simp add: js_def)
  have p: "course example_props = Some (js ''CSE 3320'')"
    "routeType example_props = Some RouteCourse" "professor example_props = None"
    "resetState example_props" "resetStateCalls example_bar = 0"
    by (simp_all add: search_example_defs)
  show ?thesis
    using handleSearch_reset [of example_props "js ''CSE 3320 OPERATING SYSTEMS''" example_bar]
      handleSearch_reset [of example_props "js ''CSE 1310 INTRO''" example_bar]
      handleSearch_reset [of "example_props\<lparr>resetState := False\<rparr>" "js ''CSE 1310 INTRO''"
        example_bar]
    by (simp add: same other ne p)
qed

text \<open>
  Claim C8. When the selected suggestion splits at spaces into a prefix, a second
  term of four digits, and possibly further terms, the value that \<open>handleSearch\<close>
  encodes into the route is exactly the prefix, a space and the number; the rest of
  the suggestion (the course title) is dropped.
\<close>

theorem handleSearch_course_code:
  assumes "split_on 0x20 selected = coursePrefix # courseNumber # title"
    and "length courseNumber = 4" and "list_all digit courseNumber"
  shows "searchedValue selected = coursePrefix @ js '' '' @ courseNumber
     \<and> (\<forall>q. encodeURIComponent (coursePrefix @ js '' '' @ courseNumber) = Inr q \<longrightarrow>
            pushed (snd (handleSearch props selected st))
            = pushed st @
              [(if isProfessor (suggestions st) selected then js ''/results?professor=''
                else js ''/results?course='') @ q])"
proof -
  have v: "searchedValue selected = coursePrefix @ js '' '' @ courseNumber"
    using assms by (rule searchedValue_course_code)
  show ?thesis
    by (simp add: v handleSearch_pushed)
qed

theorem handleSearch_course_code_witness:
  "searchedValue (js ''CSE 3320 OPERATING SYSTEMS'') = js ''CSE 3320''
   \<and> pushed (snd (handleSearch example_props (js ''CSE 3320 OPERATING SYSTEMS'') example_bar))
       = [js ''/results?course=CSE%203320'']"
proof -
  have sp: "split_on 0x20 (js ''CSE 3320 OPERATING SYSTEMS'')
      = js ''CSE'' # js ''3320'' # [js ''OPERATING'', js ''SYSTEMS'']"
    by (simp add: js_def)
  have n: "length (js ''3320'') = 4" "list_all digit (js ''3320'')"
    by (simp_all add: js_def digit_def)
  have e: "encodeURIComponent (js ''CSE'' @ js '' '' @ js ''3320'') = Inr (js ''CSE%203320'')"
    by (simp add: char_defs)
  have i: "\<not> isProfessor (suggestions example_bar) (js ''CSE 3320 OPERATING SYSTEMS'')"
    by (simp add: isProfessor_def search_example_defs js_def)
  have b: "pushed example_bar = []" by (simp add: search_example_defs)
  show ?thesis
    using handleSearch_course_code [OF sp n, of example_props example_bar] e i
    by (simp add: b js_def)
qed

text \<open>
  Claim C10. \<open>handleSearch\<close> navigates to the professor route
  \<open>/results?professor=<value>\<close> exactly when the current suggestion list holds an entry
  whose text is the selected text and whose \<open>type\<close> is exactly "professor"; in every
  other case (another type, or no entry with that text) it navigates to the course
  route \<open>/results?course=<value>\<close>. Here \<open><value>\<close> is the encoded searched value;
  \<open>encodeURIComponent\<close> has no value only for a text with an unpaired surrogate.
\<close>

theorem handleSearch_route:
  assumes "encodeURIComponent (searchedValue selected) = Inr q"
  shows "pushed (snd (handleSearch props selected st))
     = pushed st @
       [if (\<exists>s \<in> set (suggestions st). suggestion s = selected \<and> type s = js ''professor'')
        then js ''/results?professor='' @ q
        else js ''/results?course='' @ q]"
proof -
  have "pushed (snd (handleSearch props selected st))
      = pushed st @
        [if isProfessor (suggestions st) selected
         then js ''/results?professor='' @ q
         else js ''/results?course='' @ q]"
    using assms by (simp add: handleSearch_pushed)
  then show ?thesis by (simp only: isProfessor_iff)
qed

theorem handleSearch_route_witness:
  "pushed (snd (handleSearch example_props (js ''John Smith'') example_bar))
     = [js ''/results?professor=John%20Smith'']
   \<and> pushed (snd (handleSearch example_props (js ''Jane Doe'') example_bar))
     = [js ''/results?course=Jane%20Doe'']
   \<and> pushed (snd (handleSearch example_props (js ''Nobody'') example_bar))
     = [js ''/results?course=Nobody'']"
proof -
  have v: "searchedValue (js ''John Smith'') = js ''John Smith''"
    "searchedValue (js ''Jane Doe'') = js ''Jane Doe''"
    "searchedValue (js ''Nobody'') = js ''Nobody''"
    by (simp_all add: searchedValue_def courseSuggestion_def js_def)
  have e: "encodeURIComponent (js ''John Smith'') = Inr (js ''John%20Smith'')"
    "encodeURIComponent (js ''Jane Doe'') = Inr (js ''Jane%20Doe'')"
    "encodeURIComponent (js ''Nobody'') = Inr (js ''Nobody'')"
    by (simp_all add: char_defs)
  have b: "pushed example_bar = []" "suggestions example_bar = example_suggestions"
    by (simp_all add: search_example_defs)
  have s: "\<exists>s \<in> set example_suggestions. suggestion s = js ''John Smith'' \<and> type s = js ''professor''"
    "\<not> (\<exists>s \<in> set example_suggestions. suggestion s = js ''Jane Doe'' \<and> type s = js ''professor'')"
    "\<not> (\<exists>s \<in> set example_suggestions. suggestion s = js ''Nobody'' \<and> type s = js ''professor'')"
    by (simp_all add: example_suggestions_def js_def)
  have "pushed (snd (handleSearch example_props (js ''John Smith'') example_bar))
      = [js ''/results?professor='' @ js ''John%20Smith'']"
    using handleSearch_route [of "js ''John Smith''" "js ''John%20Smith''" example_props example_bar]
      s(1) by (simp only: v e b if_True append_Nil)
  moreover have "pushed (snd (handleSearch example_props (js ''Jane Doe'') example_bar))
      = [js ''/results?course='' @ js ''Jane%20Doe'']"
    using handleSearch_route [of "js ''Jane Doe''" "js ''Jane%20Doe''" example_props example_bar]
      s(2) by (simp only: v e b if_False append_Nil)
  moreover have "pushed (snd (handleSearch example_props (js ''Nobody'') example_bar))
      = [js ''/results?course='' @ js ''Nobody'']"
    using handleSearch_route [of "js ''Nobody''" "js ''Nobody''" example_props example_bar]
      s(3) by (simp only: v e b if_False append_Nil)
  ultimately show ?thesis by (simp add: js_def)
qed

subsection \<open>fetchSuggestions\<close>

lemma fetch_block_failure:
  assumes "encodeURIComponent (normalizeSearchInput input) = Inl e
     \<or> (\<exists>q. encodeURIComponent (normalizeSearchInput input) = Inr q
            \<and> (network (js ''/api/courses/search?query='' @ q) = Rejects e
               \<or> network (js ''/api/courses/search?query='' @ q) = Responds (Inl e)))"
  shows "fst (fetch_block network input st) = Inl e
     \<and> suggestions (snd (fetch_block network input st)) = suggestions st
     \<and> isLoading (snd (fetch_block network input st)) = isLoading st
     \<and> console (snd (fetch_block network input st)) = console st"
  using assms by (auto simp: fetch_block_def Let_def)

lemma fetch_block_frame:
  "console (snd (fetch_block network input st)) = console st
   \<and> pushed (snd (fetch_block network input st)) = pushed st
   \<and> resetStateCalls (snd (fetch_block network input st)) = resetStateCalls st"
  by (simp add: fetch_block_def Let_def split: sum.splits fetch_result.splits)

lemma try_catch_finally_fetch:
  "try_catch_finally block fetch_catch fetch_finally st =
     (case block st of
        (Inl e, st1) \<Rightarrow>
          (Inr (), st1\<lparr>console := console st1 @ [ConsoleError (js ''Error fetching suggestions:'') e],
                      suggestions := [], isLoading := False\<rparr>)
      | (Inr u, st1) \<Rightarrow> (Inr (), st1\<lparr>isLoading := False\<rparr>))"
  by (simp add: try_catch_finally_def fetch_catch_def fetch_finally_def
        split: prod.splits sum.splits)

lemma fetchSuggestions_async_settles:
  "fst (fetchSuggestions_async network input st) = Inr ()"
  by (simp add: fetchSuggestions_async_def try_catch_finally_fetch split: prod.splits sum.splits)

lemma fetchSuggestions_async_loading:
  "input \<noteq> [] \<Longrightarrow> isLoading (snd (fetchSuggestions_async network input st)) = False"
  by (simp add: fetchSuggestions_async_def try_catch_finally_fetch split: prod.splits sum.splits)

lemma fetchSuggestions_async_failure:
  assumes "input \<noteq> []"
    and "encodeURIComponent (normalizeSearchInput input) = Inl e
     \<or> (\<exists>q. encodeURIComponent (normalizeSearchInput input) = Inr q
            \<and> (network (js ''/api/courses/search?query='' @ q) = Rejects e
               \<or> network (js ''/api/courses/search?query='' @ q) = Responds (Inl e)))"
  shows "suggestions (snd (fetchSuggestions_async network input st)) = []
     \<and> console (snd (fetchSuggestions_async network input st))
         = console st @ [ConsoleError (js ''Error fetching suggestions:'') e]"
proof -
  let ?st = "st\<lparr>isLoading := True\<rparr>"
  obtain st1 where b: "fetch_block network input ?st = (Inl e, st1)" and c: "console st1 = console st"
    using fetch_block_failure [OF assms(2), of ?st]
    by (cases "fetch_block network input ?st") auto
  show ?thesis
    using assms(1) by (simp add: fetchSuggestions_async_def try_catch_finally_fetch b c)
qed

lemma fetchSuggestions_async_empty:
  "fetchSuggestions_async network [] st = (Inr (), st\<lparr>suggestions := []\<rparr>)"
  by (simp add: fetchSuggestions_async_def)

lemma timer_elapses_pending:
  "timer_elapses network t (handleInputChange input now st) =
     (if now + 100 \<le> t
      then fetchSuggestions_async network input (st\<lparr>searchInput := input, pendingCall := None\<rparr>)
      else (Inr (), handleInputChange input now st))"
  by (simp add: timer_elapses_def handleInputChange_def fetchSuggestions_def)

text \<open>
  Claim C6. For a non-empty input, the promise of the dispatched function is always
  fulfilled, never rejected, and \<open>isLoading\<close> is false when it settles, whether the
  request succeeded or failed. When the request fails (the query cannot be encoded,
  \<open>fetch\<close> rejects, or \<open>json()\<close> rejects) the failure is written to the console and
  the suggestion list is set to empty.
\<close>

theorem fetchSuggestions_failure:
  assumes "input \<noteq> []"
  shows "fst (fetchSuggestions_async network input st) = Inr ()
     \<and> isLoading (snd (fetchSuggestions_async network input st)) = False
     \<and> (\<forall>e. encodeURIComponent (normalizeSearchInput input) = Inl e
            \<or> (\<exists>q. encodeURIComponent (normalizeSearchInput input) = Inr q
                  \<and> (network (js ''/api/courses/search?query='' @ q) = Rejects e
                     \<or> network (js ''/api/courses/search?query='' @ q) = Responds (Inl e)))
          \<longrightarrow> suggestions (snd (fetchSuggestions_async network input st)) = []
              \<and> console (snd (fetchSuggestions_async network input st))
                  = console st @ [ConsoleError (js ''Error fetching suggestions:'') e])"
  using assms fetchSuggestions_async_settles [of network input st]
    fetchSuggestions_async_loading [of input network st]
    fetchSuggestions_async_failure [of input _ network st]
  by blast

theorem fetchSuggestions_failure_witness:
  "fst (fetchSuggestions_async network_down (js ''cse1310'') example_bar) = Inr ()
   \<and> isLoading (snd (fetchSuggestions_async network_down (js ''cse1310'') example_bar)) = False
   \<and> suggestions (snd (fetchSuggestions_async network_down (js ''cse1310'') example_bar)) = []
   \<and> console (snd (fetchSuggestions_async network_down (js ''cse1310'') example_bar))
       = [ConsoleError (js ''Error fetching suggestions:'') TypeError]
   \<and> suggestions (snd (fetchSuggestions_async network_garbled (js ''cse1310'') example_bar)) = []
   \<and> console (snd (fetchSuggestions_async network_garbled (js ''cse1310'') example_bar))
       = [ConsoleError (js ''Error fetching suggestions:'') SyntaxError]"
proof -
  have ne: "js ''cse1310'' \<noteq> []" by (simp add: js_def)
  have n: "normalizeSearchInput (js ''cse1310'') = js ''cse 1310''"
    by (simp add: normalizeSearchInput_def coursePattern_def course_match_def char_defs)
  have e: "encodeURIComponent (js ''cse 1310'') = Inr (js ''cse%201310'')"
    by (simp add: char_defs)
  have d: "network_down (js ''/api/courses/search?query='' @ js ''cse%201310'') = Rejects TypeError"
    by (simp add: network_down_def)
  have g: "network_garbled (js ''/api/courses/search?query='' @ js ''cse%201310'')
      = Responds (Inl SyntaxError)"
    by (simp add: network_garbled_def)
  have c: "console example_bar = []" by (simp add: search_example_defs)
  show ?thesis
    using fetchSuggestions_failure [OF ne, of network_down example_bar]
      fetchSuggestions_failure [OF ne, of network_garbled example_bar]
    by (simp add: n e d g c)
qed

text \<open>
  Claim C2, as stated, fails: a keystroke that leaves the input empty does not clear
  the suggestion list at once. The test \<open>input.length > 0\<close> is inside the debounced
  function, so 99 ms after the keystroke the three suggestions are still there.
\<close>

theorem empty_input_not_immediate:
  "suggestions (handleInputChange [] 0 example_bar) \<noteq> []
   \<and> suggestions (snd (timer_elapses network_up 99 (handleInputChange [] 0 example_bar))) \<noteq> []"
  by (simp add: handleInputChange_def fetchSuggestions_def timer_elapses_def
        search_example_defs)

text \<open>
  Claim C2, amended. A keystroke that leaves the input empty only records the pending
  call: until 100 ms have passed the suggestion list is as it was. When the timer then
  elapses, the debounced function clears the suggestion list and completes without
  issuing a network request.
\<close>

theorem empty_input_after_debounce:
  "(t < now + 100 \<longrightarrow>
      timer_elapses network t (handleInputChange [] now st)
        = (Inr (), handleInputChange [] now st)
      \<and> suggestions (handleInputChange [] now st) = suggestions st
      \<and> fetched (handleInputChange [] now st) = fetched st)
   \<and> (now + 100 \<le> t \<longrightarrow>
      fst (timer_elapses network t (handleInputChange [] now st)) = Inr ()
      \<and> suggestions (snd (timer_elapses network t (handleInputChange [] now st))) = []
      \<and> fetched (snd (timer_elapses network t (handleInputChange [] now st))) = fetched st)"
  by (simp add: timer_elapses_pending fetchSuggestions_async_empty)
     (simp add: handleInputChange_def fetchSuggestions_def)

theorem empty_input_after_debounce_witness:
  "suggestions (snd (timer_elapses network_up 99 (handleInputChange [] 0 example_bar)))
     = example_suggestions
   \<and> suggestions (snd (timer_elapses network_up 100 (handleInputChange [] 0 example_bar))) = []
   \<and> fetched (snd (timer_elapses network_up 100 (handleInputChange [] 0 example_bar))) = []"
proof -
  have b: "suggestions example_bar = example_suggestions" "fetched example_bar = []"
    by (simp_all add: search_example_defs)
  show ?thesis
    using empty_input_after_debounce [of 99 0 network_up example_bar]
      empty_input_after_debounce [of 100 0 network_up example_bar]
    by (simp add: b)
qed

end
